theory Spec2Isabelle
  imports Main "HOL-Library.AList" "HOL-Library.List_Lexorder" "HOL-Library.Sublist"
begin

section \<open>Strings and JavaScript values\<close>

text \<open>
  A JavaScript string is modelled as a \<^typ>\<open>string\<close>: the sequence of bytes of its UTF-8
  text. Percent-encoding works byte by byte, so this is what \<open>encodeURIComponent\<close> sees
  for well-formed text (a lone surrogate, on which it throws, has no representation here).
\<close>

text \<open>
  JavaScript itself sees a string as UTF-16 code units, and compares strings by them.
  \<open>utf16\<close> gives the code units of a UTF-8 text: one unit for a character of one, two or
  three bytes, a surrogate pair for a character of four bytes. (A byte that starts no
  well-formed sequence stands for itself; no JavaScript string has such a text.)
\<close>

definition continuation :: "char \<Rightarrow> nat" where
  "continuation c = of_char c mod 64"

fun utf16 :: "string \<Rightarrow> nat list" where
  "utf16 [] = []"
| "utf16 (a # s) =
     (let n = of_char a :: nat
      in if n < 192 then n # utf16 s
         else if n < 224 then
           (case s of
              b # s' \<Rightarrow> (n mod 32 * 64 + continuation b) # utf16 s'
            | _ \<Rightarrow> n # utf16 s)
         else if n < 240 then
           (case s of
              b # c # s' \<Rightarrow> (n mod 16 * 4096 + continuation b * 64 + continuation c) # utf16 s'
            | _ \<Rightarrow> n # utf16 s)
         else
           (case s of
              b # c # d # s' \<Rightarrow>
                (let point = n mod 8 * 262144 + continuation b * 4096 + continuation c * 64
                               + continuation d;
                     offset = point - 65536
                 in (55296 + offset div 1024) # (56320 + offset mod 1024) # utf16 s')
            | _ \<Rightarrow> n # utf16 s))"

text \<open>\<open>Array.prototype.join\<close> on an array of strings.\<close>

fun join :: "string \<Rightarrow> string list \<Rightarrow> string" where
  "join sep [] = []"
| "join sep [x] = x"
| "join sep (x # y # ys) = x @ sep @ join sep (y # ys)"

text \<open>\<open>String(n)\<close> for a non-negative integer such as an HTTP status code: decimal digits.\<close>

definition digit :: "nat \<Rightarrow> char" where
  "digit d = ''0123456789'' ! d"

fun show_nat :: "nat \<Rightarrow> string" where
  "show_nat n = (if n < 10 then [digit n] else show_nat (n div 10) @ [digit (n mod 10)])"

declare show_nat.simps [simp del]

definition show_int :: "int \<Rightarrow> string" where
  "show_int i = (if i < 0 then CHR ''-'' # show_nat (nat (- i)) else show_nat (nat i))"

text \<open>
  JavaScript numbers are IEEE doubles. The model leaves the number type \<open>'n\<close> open and
  takes the two operations the code applies to a number as parameters: its string
  form (\<open>String(n)\<close>, as used by template literals and by the query encoder) and its
  truthiness (as used by \<open>||\<close>).
\<close>

record 'n number_ops =
  num_str :: "'n \<Rightarrow> string"
  num_truthy :: "'n \<Rightarrow> bool"

text \<open>The integers as numbers, for the concrete scenarios.\<close>

definition int_ops :: "int number_ops" where
  "int_ops = \<lparr>num_str = show_int, num_truthy = (\<lambda>i. i \<noteq> 0)\<rparr>"

datatype js_error = Error string | TypeError string | SyntaxError string

section \<open>Query encoder: the \<open>query-string\<close> package as \<open>fetcher\<close> calls it\<close>

text \<open>
  Modelled from the spec: the type \<open>QueryParams\<close> is declared outside the given sources;
  the spec gives a parameter value as string, number, boolean, null or undefined.
  A parameter object is an association list of its own properties.
\<close>

datatype 'n query_value = QNull | QUndefined | QString string | QNumber 'n | QBoolean bool

type_synonym 'n QueryParams = "(string \<times> 'n query_value) list"

text \<open>\<open>String(value)\<close>, the coercion \<open>encodeURIComponent\<close> applies to its argument.\<close>

fun to_string :: "'n number_ops \<Rightarrow> 'n query_value \<Rightarrow> string" where
  "to_string ops QNull = ''null''"
| "to_string ops QUndefined = ''undefined''"
| "to_string ops (QString s) = s"
| "to_string ops (QNumber n) = num_str ops n"
| "to_string ops (QBoolean b) = (if b then ''true'' else ''false'')"

definition hexDigit :: "nat \<Rightarrow> char" where
  "hexDigit d = ''0123456789ABCDEF'' ! d"

definition percent :: "char \<Rightarrow> string" where
  "percent c = [CHR ''%'', hexDigit (of_char c div 16), hexDigit (of_char c mod 16)]"

text \<open>The characters \<open>encodeURIComponent\<close> leaves alone: \<open>A-Z a-z 0-9 - _ . ! ~ * ' ( )\<close>.\<close>

definition uriUnescaped :: "char set" where
  "uriUnescaped = set (''ABCDEFGHIJKLMNOPQRSTUVWXYZabcdefghijklmnopqrstuvwxyz''
     @ ''0123456789'' @ ''-_.!~*()'' @ [CHR 0x27])"

definition encodeURIComponent :: "string \<Rightarrow> string" where
  "encodeURIComponent s = concat (map (\<lambda>c. if c \<in> uriUnescaped then [c] else percent c) s)"

text \<open>
  \<open>strict-uri-encode\<close>:
  \<^verbatim>\<open>encodeURIComponent(str).replace(/[!'()*]/g, x => `%${x.charCodeAt(0).toString(16).toUpperCase()}`)\<close>
\<close>

definition strictUriEncode :: "string \<Rightarrow> string" where
  "strictUriEncode s =
     concat (map (\<lambda>x. if x \<in> set (''!()*'' @ [CHR 0x27]) then percent x else [x])
       (encodeURIComponent s))"

record stringify_options =
  skipEmptyString :: bool
  skipNull :: bool

text \<open>\<open>object[key]\<close>: a missing property reads as undefined.\<close>

definition property :: "'n QueryParams \<Rightarrow> string \<Rightarrow> 'n query_value" where
  "property object key = (case map_of object key of None \<Rightarrow> QUndefined | Some v \<Rightarrow> v)"

definition isNullOrUndefined :: "'n query_value \<Rightarrow> bool" where
  "isNullOrUndefined v = (v = QNull \<or> v = QUndefined)"

definition shouldFilter :: "stringify_options \<Rightarrow> 'n QueryParams \<Rightarrow> string \<Rightarrow> bool" where
  "shouldFilter options object key =
     ((skipNull options \<and> isNullOrUndefined (property object key))
      \<or> (skipEmptyString options \<and> property object key = QString []))"

text \<open>
  \<open>stringify(object, options)\<close> with the package's defaults for what \<open>fetcher\<close> does not
  set (\<open>encode\<close>, \<open>strict\<close>, sorted keys), on scalar values: drop the filtered keys, sort the
  rest, render each key, drop empty renderings, join with \<open>&\<close>. The package is a
  dependency of the repository, modelled here as it behaves. \<open>keys.sort()\<close> compares the
  keys by their UTF-16 code units, a proper prefix first.
\<close>

definition stringify :: "'n number_ops \<Rightarrow> stringify_options \<Rightarrow> 'n QueryParams \<Rightarrow> string" where
  "stringify ops options object =
     (let objectCopy = filter (\<lambda>(key, value). \<not> shouldFilter options object key) object;
          keys = sort_key utf16 (map fst objectCopy)
      in join ''&'' (filter (\<lambda>x. x \<noteq> [])
           (map (\<lambda>key. case property object key of
                   QUndefined \<Rightarrow> []
                 | QNull \<Rightarrow> strictUriEncode key
                 | value \<Rightarrow> strictUriEncode key @ ''='' @ strictUriEncode (to_string ops value))
              keys)))"


text \<open>\<open>removeHash\<close>, \<open>getHash\<close> and \<open>extract\<close> (here \<open>extract_query\<close>): the URL up to
  \<open>#\<close>, from \<open>#\<close> on, and the query between the first \<open>?\<close> and the \<open>#\<close>.\<close>

definition removeHash :: "string \<Rightarrow> string" where
  "removeHash input = takeWhile (\<lambda>c. c \<noteq> CHR ''#'') input"

definition getHash :: "string \<Rightarrow> string" where
  "getHash url = dropWhile (\<lambda>c. c \<noteq> CHR ''#'') url"

definition extract_query :: "string \<Rightarrow> string" where
  "extract_query input =
     (let input' = removeHash input
      in if CHR ''?'' \<in> set input' then tl (dropWhile (\<lambda>c. c \<noteq> CHR ''?'') input') else [])"

text \<open>
  \<open>parse\<close> of the empty string is the empty object. Decoding a non-empty query string
  that the URL already carries is the package's own work and is not modelled: it is the
  parameter \<open>decoder\<close>.
\<close>

definition parse :: "(string \<Rightarrow> 'n QueryParams) \<Rightarrow> string \<Rightarrow> 'n QueryParams" where
  "parse decoder query = (if query = [] then [] else decoder query)"

text \<open>Object spread \<open>{...target, ...source}\<close>: a later property replaces an earlier one
  of the same key, in the earlier one's place.\<close>

definition spread :: "('k \<times> 'v) list \<Rightarrow> ('k \<times> 'v) list \<Rightarrow> ('k \<times> 'v) list" where
  "spread target source = foldl (\<lambda>acc (k, v). AList.update k v acc) target source"

text \<open>
  \<open>stringifyUrl({url, query}, options)\<close>; \<open>query\<close> is \<open>None\<close> when \<open>fetcher\<close> is called
  without parameters.
\<close>

definition stringifyUrl ::
  "(string \<Rightarrow> 'n QueryParams) \<Rightarrow> 'n number_ops \<Rightarrow> stringify_options \<Rightarrow> string
     \<Rightarrow> 'n QueryParams option \<Rightarrow> string" where
  "stringifyUrl decoder ops options url query =
     (let url' = takeWhile (\<lambda>c. c \<noteq> CHR ''?'') (removeHash url);
          queryFromUrl = extract_query url;
          query' = spread (spread [] (parse decoder queryFromUrl))
                     (case query of None \<Rightarrow> [] | Some q \<Rightarrow> q);
          queryString = stringify ops options query';
          queryString' = (if queryString \<noteq> [] then ''?'' @ queryString else queryString);
          hash = getHash url
      in url' @ queryString' @ hash)"

section \<open>Typed fetch client (\<open>coingecko.action\<close>)\<close>

subsection \<open>Module constants\<close>

record config =
  BASE_URL :: string
  API_KEY :: string

text \<open>
  The top of the module: read the two settings from \<open>process.env\<close> and throw when one is
  falsy (undefined or empty). The result is the error thrown while the module loads, or
  the constants every later call reads.
\<close>

definition module_init :: "(string \<rightharpoonup> string) \<Rightarrow> js_error + config" where
  "module_init env =
     (case env ''COINGECKO_BASE_URL'' of
        None \<Rightarrow> Inl (Error ''Could not get base url'')
      | Some base \<Rightarrow>
          if base = [] then Inl (Error ''Could not get base url'')
          else (case env ''COINGECKO_API_KEY'' of
                  None \<Rightarrow> Inl (Error ''Could not get api key'')
                | Some key \<Rightarrow>
                    if key = [] then Inl (Error ''Could not get api key'')
                    else Inr \<lparr>BASE_URL = base, API_KEY = key\<rparr>))"

subsection \<open>Requests, responses and JSON values\<close>

datatype 'n json_value =
    JNull
  | JBoolean bool
  | JNumber 'n
  | JString string
  | JArray "'n json_value list"
  | JObject "(string \<times> 'n json_value) list"

text \<open>What \<open>fetch\<close> is called with. No method is given, so the request is a GET.\<close>

record request =
  url :: string
  request_method :: string
  headers :: "(string \<times> string) list"
  next_revalidate :: int

text \<open>
  What \<open>fetch\<close> resolves to: the status line and the outcome of \<open>response.json()\<close>, which
  is the parsed body or the rejection for a body that is not JSON.
\<close>

record 'n response =
  status :: nat
  statusText :: string
  json :: "js_error + 'n json_value"

definition ok :: "'n response \<Rightarrow> bool" where
  "ok response = (200 \<le> status response \<and> status response \<le> 299)"

text \<open>
  \<open>errorBody.error\<close>: reading a property of \<open>null\<close> throws, an object gives its property
  or undefined (\<open>None\<close>), any other value has no such property.
\<close>

fun error_property :: "'n json_value \<Rightarrow> js_error + 'n json_value option" where
  "error_property JNull = Inl (TypeError ''Cannot read properties of null'')"
| "error_property (JObject members) = Inr (map_of members ''error'')"
| "error_property v = Inr None"

text \<open>Truthiness, as \<open>||\<close> tests it.\<close>

fun truthy :: "'n number_ops \<Rightarrow> 'n json_value \<Rightarrow> bool" where
  "truthy ops JNull = False"
| "truthy ops (JBoolean b) = b"
| "truthy ops (JNumber n) = num_truthy ops n"
| "truthy ops (JString s) = (s \<noteq> [])"
| "truthy ops (JArray xs) = True"
| "truthy ops (JObject members) = True"

text \<open>The string a template literal puts in place of a value.\<close>

fun template :: "'n number_ops \<Rightarrow> 'n json_value \<Rightarrow> string" where
  "template ops JNull = ''null''"
| "template ops (JBoolean b) = (if b then ''true'' else ''false'')"
| "template ops (JNumber n) = num_str ops n"
| "template ops (JString s) = s"
| "template ops (JArray xs) =
     join '','' (map (\<lambda>x. case x of JNull \<Rightarrow> [] | _ \<Rightarrow> template ops x) xs)"
| "template ops (JObject members) = ''[object Object]''"

subsection \<open>\<open>fetcher\<close>\<close>

text \<open>Lines 67 to 79: the URL and the options \<open>fetch\<close> is called with; an omitted
  \<open>revalidate\<close> (\<open>None\<close>) takes the default 60.\<close>

definition fetcher_request ::
  "(string \<Rightarrow> 'n QueryParams) \<Rightarrow> 'n number_ops \<Rightarrow> config \<Rightarrow> string
     \<Rightarrow> 'n QueryParams option \<Rightarrow> int option \<Rightarrow> request" where
  "fetcher_request decoder ops cfg endPoint params revalidate_arg =
     (let revalidate = (case revalidate_arg of None \<Rightarrow> 60 | Some seconds \<Rightarrow> seconds);
          url = stringifyUrl decoder ops \<lparr>skipEmptyString = True, skipNull = True\<rparr>
                  (BASE_URL cfg @ ''/'' @ endPoint) params
      in \<lparr>url = url, request_method = ''GET'',
          headers = [(''x-cg-demo-api-key'', API_KEY cfg), (''Content-Type'', ''application/json'')],
          next_revalidate = revalidate\<rparr>)"

text \<open>Lines 81 to 87: what the call makes of the response.\<close>

definition fetcher_result :: "'n number_ops \<Rightarrow> 'n response \<Rightarrow> js_error + 'n json_value" where
  "fetcher_result ops response =
     (if \<not> ok response then
        (let errorBody = (case json response of Inl _ \<Rightarrow> JObject [] | Inr body \<Rightarrow> body)
         in case error_property errorBody of
              Inl e \<Rightarrow> Inl e
            | Inr error \<Rightarrow>
                Inl (Error (''API Error: '' @ show_nat (status response) @ '': ''
                       @ (case error of
                            None \<Rightarrow> statusText response
                          | Some message \<Rightarrow>
                              if truthy ops message then template ops message
                              else statusText response))))
      else json response)"

text \<open>
  The whole call against a transport \<open>fetch\<close>: the requests it issues, and its outcome
  (\<open>Inl\<close> what it throws, \<open>Inr\<close> what it returns). A rejection of \<open>fetch\<close> itself is thrown on.
\<close>

definition fetcher ::
  "(string \<Rightarrow> 'n QueryParams) \<Rightarrow> 'n number_ops \<Rightarrow> config \<Rightarrow> (request \<Rightarrow> js_error + 'n response)
     \<Rightarrow> string \<Rightarrow> 'n QueryParams option \<Rightarrow> int option
     \<Rightarrow> request list \<times> (js_error + 'n json_value)" where
  "fetcher decoder ops cfg fetch endPoint params revalidate_arg =
     (let req = fetcher_request decoder ops cfg endPoint params revalidate_arg
      in ([req], case fetch req of
                   Inl e \<Rightarrow> Inl e
                 | Inr response \<Rightarrow> fetcher_result ops response))"

text \<open>Stand-ins for the scenarios: a transport that answers every request with one
  response, and a decoder for URLs that carry no query of their own.\<close>

definition mock :: "'n response \<Rightarrow> request \<Rightarrow> js_error + 'n response" where
  "mock response req = Inr response"

definition undecoded :: "string \<Rightarrow> 'n QueryParams" where
  "undecoded query = []"


section \<open>Table primitives (\<open>components/ui/table\<close>)\<close>

text \<open>
  A React element is its type and its props, in the order the JSX writes them; children
  are the prop \<open>children\<close>. A prop value is a string, an element, or anything else (\<open>'v\<close>).
\<close>

datatype 'v element = Element (element_type: string) (element_props: "(string \<times> 'v prop_value) list")
  and 'v prop_value = PString string | PElement "'v element" | POther 'v

type_synonym 'v props = "(string \<times> 'v prop_value) list"

text \<open>
  \<open>cn\<close> is \<open>twMerge(clsx(inputs))\<close>, two packages outside the sources; the components take
  it as a parameter. Its inputs are class values, \<open>None\<close> for an undefined \<open>className\<close>.
\<close>

type_synonym 'v cn = "'v prop_value option list \<Rightarrow> string"

text \<open>
  Each component destructures \<open>{ className, ...props }\<close> and writes
  \<open>data-slot\<close>, \<open>className={cn(defaults, className)}\<close> and then \<open>{...props}\<close>.
\<close>

definition Table :: "'v cn \<Rightarrow> 'v props \<Rightarrow> 'v element" where
  "Table cn props0 =
     (let className = map_of props0 ''className'';
          props = AList.delete ''className'' props0
      in Element ''div''
           [(''data-slot'', PString ''table-container''),
            (''className'', PString ''relative w-full overflow-x-auto''),
            (''children'', PElement (Element ''table''
               (spread [(''data-slot'', PString ''table''),
                        (''className'', PString (cn [Some (PString ''w-full caption-bottom text-sm''), className]))]
                  props)))])"

definition TableHeader :: "'v cn \<Rightarrow> 'v props \<Rightarrow> 'v element" where
  "TableHeader cn props0 =
     (let className = map_of props0 ''className'';
          props = AList.delete ''className'' props0
      in Element ''thead''
           (spread [(''data-slot'', PString ''table-header''),
                    (''className'', PString (cn [Some (PString
                       ''[&_tr]:border-b''), className]))]
              props))"

definition TableBody :: "'v cn \<Rightarrow> 'v props \<Rightarrow> 'v element" where
  "TableBody cn props0 =
     (let className = map_of props0 ''className'';
          props = AList.delete ''className'' props0
      in Element ''tbody''
           (spread [(''data-slot'', PString ''table-body''),
                    (''className'', PString (cn [Some (PString
                       ''[&_tr:last-child]:border-0''), className]))]
              props))"

definition TableFooter :: "'v cn \<Rightarrow> 'v props \<Rightarrow> 'v element" where
  "TableFooter cn props0 =
     (let className = map_of props0 ''className'';
          props = AList.delete ''className'' props0
      in Element ''tfoot''
           (spread [(''data-slot'', PString ''table-footer''),
                    (''className'', PString (cn [Some (PString
                       ''bg-muted/50 border-t font-medium [&>tr]:last:border-b-0''), className]))]
              props))"

definition TableRow :: "'v cn \<Rightarrow> 'v props \<Rightarrow> 'v element" where
  "TableRow cn props0 =
     (let className = map_of props0 ''className'';
          props = AList.delete ''className'' props0
      in Element ''tr''
           (spread [(''data-slot'', PString ''table-row''),
                    (''className'', PString (cn [Some (PString
                       ''hover:bg-muted/50 data-[state=selected]:bg-muted border-b transition-colors''), className]))]
              props))"

definition TableHead :: "'v cn \<Rightarrow> 'v props \<Rightarrow> 'v element" where
  "TableHead cn props0 =
     (let className = map_of props0 ''className'';
          props = AList.delete ''className'' props0
      in Element ''th''
           (spread [(''data-slot'', PString ''table-head''),
                    (''className'', PString (cn [Some (PString
                       ''text-foreground h-10 px-2 text-left align-middle font-medium whitespace-nowrap [&:has([role=checkbox])]:pr-0 [&>[role=checkbox]]:translate-y-[2px]''), className]))]
              props))"

definition TableCell :: "'v cn \<Rightarrow> 'v props \<Rightarrow> 'v element" where
  "TableCell cn props0 =
     (let className = map_of props0 ''className'';
          props = AList.delete ''className'' props0
      in Element ''td''
           (spread [(''data-slot'', PString ''table-cell''),
                    (''className'', PString (cn [Some (PString
                       ''p-2 align-middle whitespace-nowrap [&:has([role=checkbox])]:pr-0 [&>[role=checkbox]]:translate-y-[2px]''), className]))]
              props))"

definition TableCaption :: "'v cn \<Rightarrow> 'v props \<Rightarrow> 'v element" where
  "TableCaption cn props0 =
     (let className = map_of props0 ''className'';
          props = AList.delete ''className'' props0
      in Element ''caption''
           (spread [(''data-slot'', PString ''table-caption''),
                    (''className'', PString (cn [Some (PString
                       ''text-muted-foreground mt-4 text-sm''), className]))]
              props))"

text \<open>A stand-in for \<open>cn\<close> in the scenarios: the non-empty string inputs joined by a space,
  as \<open>clsx\<close> joins them, without the conflict resolution of \<open>tailwind-merge\<close>.\<close>

definition cn_join :: "'v cn" where
  "cn_join inputs =
     join '' '' (concat (map (\<lambda>i. case i of Some (PString c) \<Rightarrow> (if c = [] then [] else [c]) | _ \<Rightarrow> [])
       inputs))"

section \<open>Declarative table renderer\<close>

text \<open>
  Modelled from the spec: the component \<open>DataTable\<close> (\<open>@/components/DataTable\<close>) and its
  types are outside the given sources, which only call it. Following section 4.3 of the
  spec, a column descriptor carries a header and a cell function, and \<open>render\<close> gives one
  header cell per column and, for each row in order, one row keyed by the row identity
  with one cell per column.
\<close>

record ('row, 'content) column =
  header :: 'content
  cell :: "'row \<Rightarrow> 'content"
  headerClassName :: "string option"
  cellClassName :: "string option"

record ('key, 'content) table_row =
  row_key :: 'key
  cells :: "'content list"

record ('key, 'content) table =
  header_cells :: "'content list"
  body_rows :: "('key, 'content) table_row list"

definition render ::
  "'row list \<Rightarrow> ('row, 'content) column list \<Rightarrow> ('row \<Rightarrow> 'key) \<Rightarrow> ('key, 'content) table" where
  "render rows columns rowIdentity =
     \<lparr>header_cells = map header columns,
      body_rows = map (\<lambda>row. \<lparr>row_key = rowIdentity row,
                               cells = map (\<lambda>c. cell c row) columns\<rparr>) rows\<rparr>"


section \<open>Properties of the query encoder\<close>

















section \<open>Properties of the fetch client\<close>





text \<open>
  C2, for a non-empty error text. When the response has a non-success status and its
  JSON body is an object whose \<open>error\<close> field is a non-empty text X, the call throws the
  error with the message \<open>API Error: \<close>, the status, \<open>: \<close> and X, and that is its whole
  outcome. (An empty X is falsy under \<open>||\<close> and gives way to the status text.)
\<close>

theorem fetcher_error_text:
  assumes "fetch (fetcher_request decoder ops cfg endPoint params revalidate) = Inr response"
    and "\<not> ok response"
    and "json response = Inr (JObject members)"
    and "map_of members ''error'' = Some (JString X)"
    and "X \<noteq> []"
  shows "snd (fetcher decoder ops cfg fetch endPoint params revalidate)
       = Inl (Error (''API Error: '' @ show_nat (status response) @ '': '' @ X))"
  using assms by (simp add: fetcher_def fetcher_result_def Let_def)

theorem fetcher_error_text_witness:
  "snd (fetcher undecoded int_ops \<lparr>BASE_URL = ''https://api.example'', API_KEY = ''secret''\<rparr>
          (mock \<lparr>status = 401, statusText = ''Unauthorized'',
                 json = Inr (JObject [(''error'', JString ''bad key'')])\<rparr>)
          ''/search/trending'' None None)
     = Inl (Error ''API Error: 401: bad key'')"
proof -
  have n: "show_nat 401 = ''401''" by code_simp
  have k: "\<not> ok \<lparr>status = 401, statusText = ''Unauthorized'',
                 json = Inr (JObject [(''error'', JString ''bad key'')]) :: js_error + int json_value\<rparr>"
    by (simp add: ok_def)
  show ?thesis
    using fetcher_error_text[where fetch = "mock \<lparr>status = 401, statusText = ''Unauthorized'',
                 json = Inr (JObject [(''error'', JString ''bad key'')])\<rparr>"
        and response = "\<lparr>status = 401, statusText = ''Unauthorized'',
                 json = Inr (JObject [(''error'', JString ''bad key'')])\<rparr>"
        and members = "[(''error'', JString ''bad key'')]" and X = "''bad key''"
        and decoder = undecoded and ops = int_ops
        and cfg = "\<lparr>BASE_URL = ''https://api.example'', API_KEY = ''secret''\<rparr>"
        and endPoint = "''/search/trending''" and params = None and revalidate = None] k
    by (simp add: mock_def n)
qed

theorem fetcher_error_text_counterexample:
  "snd (fetcher undecoded int_ops \<lparr>BASE_URL = ''https://api.example'', API_KEY = ''secret''\<rparr>
          (mock \<lparr>status = 404, statusText = ''Not Found'',
                 json = Inr (JObject [(''error'', JString '''')])\<rparr>)
          ''/search/trending'' None None)
     = Inl (Error ''API Error: 404: Not Found'')
   \<and> snd (fetcher undecoded int_ops \<lparr>BASE_URL = ''https://api.example'', API_KEY = ''secret''\<rparr>
          (mock \<lparr>status = 404, statusText = ''Not Found'',
                 json = Inr (JObject [(''error'', JString '''')])\<rparr>)
          ''/search/trending'' None None)
     \<noteq> Inl (Error (''API Error: '' @ ''404'' @ '': '' @ ''''))"
proof -
  have n: "show_nat 404 = ''404''" by code_simp
  show ?thesis
    by (simp add: fetcher_def fetcher_result_def mock_def ok_def n Let_def)
qed

text \<open>
  C3, with the status text the response carries. When the response has a non-success
  status and its body is not JSON, the error body counts as the empty object and the
  call throws the error with the message \<open>API Error: \<close>, the status, \<open>: \<close> and the
  \<open>statusText\<close> of the response; the rejection of \<open>response.json()\<close> is not what it
  throws. (The status text is what the server sent: it may be empty, as over HTTP/2, and
  then the message holds no reason phrase, standard or other.)
\<close>

theorem fetcher_unparsable_error_body:
  assumes "fetch (fetcher_request decoder ops cfg endPoint params revalidate) = Inr response"
    and "\<not> ok response"
    and "json response = Inl parse_failure"
  shows "snd (fetcher decoder ops cfg fetch endPoint params revalidate)
       = Inl (Error (''API Error: '' @ show_nat (status response) @ '': '' @ statusText response))"
  using assms by (simp add: fetcher_def fetcher_result_def Let_def)

theorem fetcher_unparsable_error_body_witness:
  "snd (fetcher undecoded int_ops \<lparr>BASE_URL = ''https://api.example'', API_KEY = ''secret''\<rparr>
          (mock \<lparr>status = 500, statusText = ''Internal Server Error'',
                 json = Inl (SyntaxError ''Unexpected token <'')\<rparr>)
          ''coins/markets'' None None)
     = Inl (Error ''API Error: 500: Internal Server Error'')"
proof -
  have n: "show_nat 500 = ''500''" by code_simp
  have k: "\<not> ok \<lparr>status = 500, statusText = ''Internal Server Error'',
                 json = Inl (SyntaxError ''Unexpected token <'') :: js_error + int json_value\<rparr>"
    by (simp add: ok_def)
  show ?thesis
    using fetcher_unparsable_error_body[where fetch = "mock \<lparr>status = 500,
                 statusText = ''Internal Server Error'',
                 json = Inl (SyntaxError ''Unexpected token <'')\<rparr>"
        and response = "\<lparr>status = 500, statusText = ''Internal Server Error'',
                 json = Inl (SyntaxError ''Unexpected token <'')\<rparr>"
        and parse_failure = "SyntaxError ''Unexpected token <''"
        and decoder = undecoded and ops = int_ops
        and cfg = "\<lparr>BASE_URL = ''https://api.example'', API_KEY = ''secret''\<rparr>"
        and endPoint = "''coins/markets''" and params = None and revalidate = None] k
    by (simp add: mock_def n)
qed

theorem fetcher_unparsable_error_body_counterexample:
  "snd (fetcher undecoded int_ops \<lparr>BASE_URL = ''https://api.example'', API_KEY = ''secret''\<rparr>
          (mock \<lparr>status = 500, statusText = [],
                 json = Inl (SyntaxError ''Unexpected token <'')\<rparr>)
          ''coins/markets'' None None)
     = Inl (Error ''API Error: 500: '')
   \<and> \<not> sublist ''Internal Server Error'' ''API Error: 500: ''"
proof -
  have n: "show_nat 500 = ''500''" by code_simp
  have s: "\<not> sublist ''Internal Server Error'' ''API Error: 500: ''" by code_simp
  show ?thesis
    using s by (simp add: fetcher_def fetcher_result_def mock_def ok_def n Let_def)
qed

text \<open>
  C4. When the response has a success status, the outcome of the call is the outcome of
  \<open>response.json()\<close> itself: the parsed body, whatever its shape, is returned as it is.
\<close>

theorem fetcher_returns_body:
  assumes "fetch (fetcher_request decoder ops cfg endPoint params revalidate) = Inr response"
    and "ok response"
  shows "snd (fetcher decoder ops cfg fetch endPoint params revalidate) = json response
       \<and> (\<forall>body. json response = Inr body \<longrightarrow>
            snd (fetcher decoder ops cfg fetch endPoint params revalidate) = Inr body)"
  using assms by (simp add: fetcher_def fetcher_result_def Let_def)

theorem fetcher_returns_body_witness:
  "snd (fetcher undecoded int_ops \<lparr>BASE_URL = ''https://api.example'', API_KEY = ''secret''\<rparr>
          (mock \<lparr>status = 200, statusText = ''OK'',
                 json = Inr (JObject [(''coins'', JArray [])])\<rparr>)
          ''/search/trending'' None None)
     = Inr (JObject [(''coins'', JArray [])])"
proof -
  have k: "ok \<lparr>status = 200, statusText = ''OK'',
                 json = Inr (JObject [(''coins'', JArray [])]) :: js_error + int json_value\<rparr>"
    by (simp add: ok_def)
  show ?thesis
    using fetcher_returns_body[where fetch = "mock \<lparr>status = 200, statusText = ''OK'',
                 json = Inr (JObject [(''coins'', JArray [])])\<rparr>"
        and response = "\<lparr>status = 200, statusText = ''OK'',
                 json = Inr (JObject [(''coins'', JArray [])])\<rparr>"
        and decoder = undecoded and ops = int_ops
        and cfg = "\<lparr>BASE_URL = ''https://api.example'', API_KEY = ''secret''\<rparr>"
        and endPoint = "''/search/trending''" and params = None and revalidate = None] k
    by (simp add: mock_def)
qed





text \<open>
  C7. When the base URL or the API key is absent from the environment, loading the
  module throws (\<open>Could not get base url\<close> or \<open>Could not get api key\<close>) and yields no
  module constants, so there is no \<open>fetcher\<close> to call; the constants a call reads are
  always the two settings as configured.
\<close>

theorem module_init_requires_configuration:
  "(env ''COINGECKO_BASE_URL'' = None \<or> env ''COINGECKO_API_KEY'' = None \<longrightarrow>
      (module_init env = Inl (Error ''Could not get base url'')
       \<or> module_init env = Inl (Error ''Could not get api key''))
      \<and> (\<forall>cfg. module_init env \<noteq> Inr cfg))
   \<and> (\<forall>cfg. module_init env = Inr cfg \<longrightarrow>
        env ''COINGECKO_BASE_URL'' = Some (BASE_URL cfg)
        \<and> env ''COINGECKO_API_KEY'' = Some (API_KEY cfg))"
proof -
  have missing:
    "(module_init env = Inl (Error ''Could not get base url'')
       \<or> module_init env = Inl (Error ''Could not get api key''))
     \<and> (\<forall>cfg. module_init env \<noteq> Inr cfg)"
    if "env ''COINGECKO_BASE_URL'' = None \<or> env ''COINGECKO_API_KEY'' = None"
    using that by (auto simp: module_init_def split: option.splits)
  have loaded:
    "env ''COINGECKO_BASE_URL'' = Some (BASE_URL cfg) \<and> env ''COINGECKO_API_KEY'' = Some (API_KEY cfg)"
    if "module_init env = Inr cfg" for cfg
    using that by (auto simp: module_init_def split: option.splits if_splits)
  show ?thesis using missing loaded by blast
qed

theorem module_init_requires_configuration_witness:
  "module_init [''COINGECKO_BASE_URL'' \<mapsto> ''https://api.example'']
     = Inl (Error ''Could not get api key'')
   \<and> module_init [''COINGECKO_API_KEY'' \<mapsto> ''secret'']
     = Inl (Error ''Could not get base url'')"
  using module_init_requires_configuration[of "[''COINGECKO_BASE_URL'' \<mapsto> ''https://api.example'']"]
    module_init_requires_configuration[of "[''COINGECKO_API_KEY'' \<mapsto> ''secret'']"]
  by (simp add: module_init_def)


text \<open>
  C9, with the status text the response carries. When the response has a non-success
  status and its JSON body is an object whose \<open>error\<close> field is the empty string, the
  message ends in the \<open>statusText\<close> of the response, and the outcome is the one for the
  same body without the \<open>error\<close> field. (An empty status text leaves the message without
  any reason phrase.)
\<close>

theorem fetcher_empty_error_text:
  assumes "fetch (fetcher_request decoder ops cfg endPoint params revalidate) = Inr response"
    and "\<not> ok response"
    and "json response = Inr (JObject members)"
    and "map_of members ''error'' = Some (JString [])"
  shows "snd (fetcher decoder ops cfg fetch endPoint params revalidate)
           = Inl (Error (''API Error: '' @ show_nat (status response) @ '': '' @ statusText response))
       \<and> snd (fetcher decoder ops cfg fetch endPoint params revalidate)
           = fetcher_result ops (response\<lparr>json := Inr (JObject (AList.delete ''error'' members))\<rparr>)"
  using assms by (simp add: fetcher_def fetcher_result_def ok_def Let_def delete_conv)

theorem fetcher_empty_error_text_witness:
  "snd (fetcher undecoded int_ops \<lparr>BASE_URL = ''https://api.example'', API_KEY = ''secret''\<rparr>
          (mock \<lparr>status = 429, statusText = ''Too Many Requests'',
                 json = Inr (JObject [(''error'', JString '''')])\<rparr>)
          ''coins/markets'' None None)
     = Inl (Error ''API Error: 429: Too Many Requests'')"
proof -
  have n: "show_nat 429 = ''429''" by code_simp
  have k: "\<not> ok \<lparr>status = 429, statusText = ''Too Many Requests'',
                 json = Inr (JObject [(''error'', JString '''')]) :: js_error + int json_value\<rparr>"
    by (simp add: ok_def)
  show ?thesis
    using fetcher_empty_error_text[where fetch = "mock \<lparr>status = 429,
                 statusText = ''Too Many Requests'',
                 json = Inr (JObject [(''error'', JString '''')])\<rparr>"
        and response = "\<lparr>status = 429, statusText = ''Too Many Requests'',
                 json = Inr (JObject [(''error'', JString '''')])\<rparr>"
        and members = "[(''error'', JString '''')]"
        and decoder = undecoded and ops = int_ops
        and cfg = "\<lparr>BASE_URL = ''https://api.example'', API_KEY = ''secret''\<rparr>"
        and endPoint = "''coins/markets''" and params = None and revalidate = None] k
    by (simp add: mock_def n)
qed

theorem fetcher_empty_error_text_counterexample:
  "snd (fetcher undecoded int_ops \<lparr>BASE_URL = ''https://api.example'', API_KEY = ''secret''\<rparr>
          (mock \<lparr>status = 429, statusText = [],
                 json = Inr (JObject [(''error'', JString [])])\<rparr>)
          ''coins/markets'' None None)
     = Inl (Error ''API Error: 429: '')
   \<and> \<not> sublist ''Too Many Requests'' ''API Error: 429: ''"
proof -
  have n: "show_nat 429 = ''429''" by code_simp
  have s: "\<not> sublist ''Too Many Requests'' ''API Error: 429: ''" by code_simp
  show ?thesis
    using s by (simp add: fetcher_def fetcher_result_def mock_def ok_def n Let_def)
qed

section \<open>Properties of the table renderer\<close>

text \<open>
  C6. The rendered table has one header cell per column, carrying the column's header,
  and one body row per row, in order, keyed by the row identity; each body row has one
  cell per column, and the cell of row j in column i is the column's cell function
  applied to the row. Without rows the body is empty and the header is unchanged.
\<close>

theorem render_shape:
  "length (header_cells (render R C rowIdentity)) = length C
   \<and> (\<forall>i < length C. header_cells (render R C rowIdentity) ! i = header (C ! i))
   \<and> length (body_rows (render R C rowIdentity)) = length R
   \<and> (\<forall>j < length R.
        row_key (body_rows (render R C rowIdentity) ! j) = rowIdentity (R ! j)
        \<and> length (cells (body_rows (render R C rowIdentity) ! j)) = length C
        \<and> (\<forall>i < length C.
             cells (body_rows (render R C rowIdentity) ! j) ! i = cell (C ! i) (R ! j)))
   \<and> body_rows (render [] C rowIdentity) = []
   \<and> header_cells (render [] C rowIdentity) = map header C"
proof -
  have head: "header_cells (render rows C rowIdentity) = map header C" for rows
    by (simp add: render_def)
  have body: "body_rows (render rows C rowIdentity)
      = map (\<lambda>row. \<lparr>row_key = rowIdentity row, cells = map (\<lambda>c. cell c row) C\<rparr>) rows" for rows
    by (simp add: render_def)
  show ?thesis
    unfolding head body by simp
qed

theorem render_shape_witness:
  "cells (body_rows (render [(1::int, 5::int), (2, 9)]
       [\<lparr>header = Inl ''V'', cell = (\<lambda>r. Inr (snd r)), headerClassName = None,
          cellClassName = None\<rparr>] fst :: (int, string + int) table) ! 1) ! 0 = Inr 9
   \<and> cells (body_rows (render [(1::int, 5::int), (2, 9)]
       [\<lparr>header = Inl ''V'', cell = (\<lambda>r. Inr (snd r)), headerClassName = None,
          cellClassName = None\<rparr>] fst :: (int, string + int) table) ! 0) ! 0 = Inr 5
   \<and> header_cells (render [(1::int, 5::int), (2, 9)]
       [\<lparr>header = Inl ''V'', cell = (\<lambda>r. Inr (snd r)), headerClassName = None,
          cellClassName = None\<rparr>] fst :: (int, string + int) table) ! 0 = Inl ''V''
   \<and> length (body_rows (render [(1::int, 5::int), (2, 9)]
       [\<lparr>header = Inl ''V'', cell = (\<lambda>r. Inr (snd r)), headerClassName = None,
          cellClassName = None\<rparr>] fst :: (int, string + int) table)) = 2"
  using render_shape[of "[(1::int, 5::int), (2, 9)]"
      "[\<lparr>header = Inl ''V'', cell = (\<lambda>r. Inr (snd r)), headerClassName = None,
          cellClassName = None\<rparr>] :: ((int \<times> int), string + int) column list" fst]
  by (simp add: All_less_Suc)

section \<open>Properties of the table primitives\<close>

lemma map_of_foldl_update:
  "map_of (foldl (\<lambda>acc (k, v). AList.update k v acc) t s) = map_of t ++ map_of (rev s)"
proof (induction s arbitrary: t)
  case Nil
  then show ?case by simp
next
  case (Cons a s)
  obtain k v where a: "a = (k, v)" by (cases a)
  have "map_of (AList.update k v t) ++ map_of (rev s)
      = map_of t ++ (map_of [(k, v)] ++ map_of (rev s))"
    by (simp add: update_conv' map_add_upd_left fun_eq_iff map_add_def split: option.splits)
  then show ?case by (simp add: a Cons.IH)
qed

lemma map_of_rev_distinct:
  assumes "distinct (map fst s)"
  shows "map_of (rev s) = map_of s"
proof (rule ext)
  fix k
  have d: "distinct (map fst (rev s))" using assms by (simp add: rev_map[symmetric])
  have "\<And>v. (map_of (rev s) k = Some v) = (map_of s k = Some v)"
    by (simp add: map_of_eq_Some_iff[OF d] map_of_eq_Some_iff[OF assms])
  then show "map_of (rev s) k = map_of s k"
    by (cases "map_of s k") (auto simp: option.exhaust)
qed

lemma map_of_spread:
  "distinct (map fst s) \<Longrightarrow>
     map_of (spread t s) k = (case map_of s k of None \<Rightarrow> map_of t k | Some v \<Rightarrow> Some v)"
  by (simp add: spread_def map_of_foldl_update map_of_rev_distinct map_add_def)

lemma dom_foldl_update:
  "fst ` set (foldl (\<lambda>acc (k, v). AList.update k v acc) t s) = fst ` set t \<union> fst ` set s"
  by (induction s arbitrary: t) (simp_all add: case_prod_beta dom_update)

lemma distinct_foldl_update:
  "distinct (map fst t) \<Longrightarrow> distinct (map fst (foldl (\<lambda>acc (k, v). AList.update k v acc) t s))"
  by (induction s arbitrary: t) (auto simp: distinct_update)

lemma slot_props:
  fixes props :: "'v props" and slot c :: string
  assumes "distinct (map fst props)"
  defines "ps \<equiv> spread [(''data-slot'', PString slot), (''className'', PString c)]
                  (AList.delete ''className'' props)"
  shows "map_of ps ''className'' = Some (PString c)"
    and "\<forall>k \<in> fst ` set props. k \<noteq> ''className'' \<longrightarrow> map_of ps k = map_of props k"
    and "''data-slot'' \<notin> fst ` set props \<longrightarrow> map_of ps ''data-slot'' = Some (PString slot)"
    and "fst ` set ps = {''data-slot'', ''className''} \<union> fst ` set props"
    and "distinct (map fst ps)"
proof -
  let ?rest = "AList.delete ''className'' props"
  have d: "distinct (map fst ?rest)" using assms(1) by (rule distinct_delete)
  have look: "\<And>k. map_of ps k
      = (case map_of ?rest k of
           None \<Rightarrow> map_of [(''data-slot'', PString slot), (''className'', PString c)] k
         | Some v \<Rightarrow> Some v)"
    unfolding ps_def by (rule map_of_spread[OF d])
  show "map_of ps ''className'' = Some (PString c)"
    by (simp add: look delete_conv)
  show "\<forall>k \<in> fst ` set props. k \<noteq> ''className'' \<longrightarrow> map_of ps k = map_of props k"
  proof (intro ballI impI)
    fix k assume "k \<in> fst ` set props" and k: "k \<noteq> ''className''"
    then obtain v where "map_of props k = Some v"
      by (metis domD dom_map_of_conv_image_fst)
    then show "map_of ps k = map_of props k"
      using k by (simp add: look delete_conv)
  qed
  show "''data-slot'' \<notin> fst ` set props \<longrightarrow> map_of ps ''data-slot'' = Some (PString slot)"
  proof
    assume "''data-slot'' \<notin> fst ` set props"
    then have "map_of props ''data-slot'' = None"
      by (simp add: map_of_eq_None_iff)
    then show "map_of ps ''data-slot'' = Some (PString slot)"
      by (simp add: look delete_conv)
  qed
  show "fst ` set ps = {''data-slot'', ''className''} \<union> fst ` set props"
    unfolding ps_def spread_def dom_foldl_update by (auto simp: AList.delete_eq)
  show "distinct (map fst ps)"
    unfolding ps_def spread_def by (rule distinct_foldl_update) simp
qed

text \<open>
  C10, with the caller's props last. Each primitive renders one element of its tag
  whose props are the component's \<open>data-slot\<close>, the class name merged by \<open>cn\<close> from the
  component's defaults and the caller's \<open>className\<close>, and every other prop of the caller
  unchanged; the \<open>data-slot\<close> is the component's own unless the caller passes one, which
  then takes its place. \<open>Table\<close> renders its \<open>table\<close> element as the child of a \<open>div\<close> with the
  \<open>data-slot\<close> \<open>table-container\<close>.
\<close>

theorem table_primitives_forward_props:
  fixes props :: "'v props" and cn :: "'v cn"
  defines "slotted \<equiv> \<lambda>el tag slot defaults.
      element_type el = tag
      \<and> map_of (element_props el) ''className''
          = Some (PString (cn [Some (PString defaults), map_of props ''className'']))
      \<and> (\<forall>k \<in> fst ` set props. k \<noteq> ''className'' \<longrightarrow>
            map_of (element_props el) k = map_of props k)
      \<and> (''data-slot'' \<notin> fst ` set props \<longrightarrow>
            map_of (element_props el) ''data-slot'' = Some (PString slot))
      \<and> fst ` set (element_props el) = {''data-slot'', ''className''} \<union> fst ` set props
      \<and> distinct (map fst (element_props el))"
  assumes "distinct (map fst props)"
  shows "(\<exists>el. Table cn props
            = Element ''div''
                [(''data-slot'', PString ''table-container''),
                 (''className'', PString ''relative w-full overflow-x-auto''),
                 (''children'', PElement el)]
          \<and> slotted el ''table'' ''table'' ''w-full caption-bottom text-sm'')
    \<and> slotted (TableHeader cn props) ''thead'' ''table-header'' ''[&_tr]:border-b''
    \<and> slotted (TableBody cn props) ''tbody'' ''table-body'' ''[&_tr:last-child]:border-0''
    \<and> slotted (TableFooter cn props) ''tfoot'' ''table-footer''
         ''bg-muted/50 border-t font-medium [&>tr]:last:border-b-0''
    \<and> slotted (TableRow cn props) ''tr'' ''table-row''
         ''hover:bg-muted/50 data-[state=selected]:bg-muted border-b transition-colors''
    \<and> slotted (TableHead cn props) ''th'' ''table-head''
         ''text-foreground h-10 px-2 text-left align-middle font-medium whitespace-nowrap [&:has([role=checkbox])]:pr-0 [&>[role=checkbox]]:translate-y-[2px]''
    \<and> slotted (TableCell cn props) ''td'' ''table-cell''
         ''p-2 align-middle whitespace-nowrap [&:has([role=checkbox])]:pr-0 [&>[role=checkbox]]:translate-y-[2px]''
    \<and> slotted (TableCaption cn props) ''caption'' ''table-caption''
         ''text-muted-foreground mt-4 text-sm''"
proof -
  note sp = slot_props[OF assms(2)]
  have gen: "\<And>tag slot defaults.
      slotted (Element tag
         (spread [(''data-slot'', PString slot),
                  (''className'', PString (cn [Some (PString defaults), map_of props ''className'']))]
            (AList.delete ''className'' props))) tag slot defaults"
    unfolding slotted_def element.sel
    by (intro conjI sp refl)
  show ?thesis
    unfolding Table_def TableHeader_def TableBody_def TableFooter_def TableRow_def
      TableHead_def TableCell_def TableCaption_def Let_def
    by (intro conjI gen exI[where x = "Element ''table''
         (spread [(''data-slot'', PString ''table''),
                  (''className'', PString (cn [Some (PString ''w-full caption-bottom text-sm''),
                      map_of props ''className'']))]
            (AList.delete ''className'' props))"] refl)
qed

theorem table_primitives_forward_props_witness:
  "map_of (element_props (TableCell cn_join
       [(''className'', PString ''w-10''), (''id'', PString ''price'' :: unit prop_value)])) ''id''
     = Some (PString ''price'')
   \<and> map_of (element_props (TableCell cn_join
       [(''className'', PString ''w-10''), (''id'', PString ''price'' :: unit prop_value)])) ''data-slot''
     = Some (PString ''table-cell'')
   \<and> element_type (TableCell cn_join
       [(''className'', PString ''w-10''), (''id'', PString ''price'' :: unit prop_value)]) = ''td''"
proof -
  have d: "distinct (map fst [(''className'', PString ''w-10''), (''id'', PString ''price'' :: unit prop_value)])"
    by simp
  show ?thesis
    using table_primitives_forward_props[OF d, of cn_join]
    by simp
qed

theorem table_primitives_forward_props_counterexample:
  "TableCell cn_join [(''data-slot'', PString ''mine'' :: unit prop_value)]
     = Element ''td''
         [(''data-slot'', PString ''mine''),
          (''className'', PString ''p-2 align-middle whitespace-nowrap [&:has([role=checkbox])]:pr-0 [&>[role=checkbox]]:translate-y-[2px]'')]
   \<and> map_of (element_props (TableCell cn_join [(''data-slot'', PString ''mine'' :: unit prop_value)]))
        ''data-slot'' \<noteq> Some (PString ''table-cell'')"
  by (simp add: TableCell_def spread_def cn_join_def)

end
